theory Spec2Isabelle
  imports Main
begin

section \<open>The whitelist page: state, effects and outside world\<close>

text \<open>
  The page \<^verbatim>\<open>src/pages/index.jsx\<close> is one React component, \<^verbatim>\<open>Home\<close>. Its four
  \<^verbatim>\<open>useState\<close> cells are the fields of \<open>UIState\<close>; the spec calls \<open>loading\<close>
  \<open>txPending\<close> and \<open>numberOfWhitelisted\<close> \<open>whitelistedCount\<close>.
\<close>

record UIState =
  walletConnected :: bool
  joinedWhitelist :: bool
  loading :: bool
  numberOfWhitelisted :: int

text \<open>
  Every \<^verbatim>\<open>await\<close> of the page talks to the wallet or to the chain and may reject. What
  the outside world rejects with is an \<open>ext_error\<close>; what the page itself raises is
  \<open>Error msg\<close> (its \<^verbatim>\<open>throw new Error(msg)\<close>) or the runtime's \<open>TypeError\<close> for a
  method call on \<^verbatim>\<open>undefined\<close>.
\<close>

datatype ext_error = WalletRejection | RpcOrContract

datatype error = Error string | TypeError string | External ext_error

type_synonym address = string

text \<open>What \<^verbatim>\<open>getProviderOrSigner\<close> returns: the \<^verbatim>\<open>Web3Provider\<close> or its signer.\<close>

datatype accessor = Provider | Signer

text \<open>
  The observable effects of the page, in the order they happen: calls that leave the
  component, the alert, the console and the four state setters.
\<close>

datatype event =
    NewWeb3Modal
  | ModalConnect
  | WalletPrompt
  | GetNetwork
  | Alert string
  | ConsoleError error
  | GetSigner
  | NewContract accessor
  | SendAddAddressToWhitelist
  | TxWait
  | CallNumAddressesWhitelisted
  | GetAddress
  | CallWhitelistedAddress address
  | SetWalletConnected bool
  | SetJoinedWhitelist bool
  | SetLoading bool
  | SetNumberOfWhitelisted int

text \<open>The options object handed to \<^verbatim>\<open>new Web3Modal(...)\<close> in the effect.\<close>

record Web3Modal =
  network :: string
  providerOptions :: "string list"
  disableInjectedProvider :: bool

text \<open>
  The whole page: the state cells, the \<^verbatim>\<open>web3ModalRef\<close> reference (\<open>None\<close> is
  \<^verbatim>\<open>current === undefined\<close>, as \<^verbatim>\<open>useRef()\<close> leaves it), whether the wallet already
  holds a connection to this page, and the effects so far, oldest first.
\<close>

record world =
  ui :: UIState
  web3ModalRef :: "Web3Modal option"
  connectionHandle :: bool
  trace :: "event list"

definition emit :: "event \<Rightarrow> world \<Rightarrow> world" where
  "emit e w = w\<lparr>trace := trace w @ [e]\<rparr>"

definition setWalletConnected :: "bool \<Rightarrow> world \<Rightarrow> world" where
  "setWalletConnected b w = emit (SetWalletConnected b) (w\<lparr>ui := (ui w)\<lparr>walletConnected := b\<rparr>\<rparr>)"

definition setJoinedWhitelist :: "bool \<Rightarrow> world \<Rightarrow> world" where
  "setJoinedWhitelist b w = emit (SetJoinedWhitelist b) (w\<lparr>ui := (ui w)\<lparr>joinedWhitelist := b\<rparr>\<rparr>)"

definition setLoading :: "bool \<Rightarrow> world \<Rightarrow> world" where
  "setLoading b w = emit (SetLoading b) (w\<lparr>ui := (ui w)\<lparr>loading := b\<rparr>\<rparr>)"

definition setNumberOfWhitelisted :: "int \<Rightarrow> world \<Rightarrow> world" where
  "setNumberOfWhitelisted n w =
     emit (SetNumberOfWhitelisted n) (w\<lparr>ui := (ui w)\<lparr>numberOfWhitelisted := n\<rparr>\<rparr>)"

text \<open>The events a run added to the trace it started from.\<close>

definition new_events :: "world \<Rightarrow> world \<Rightarrow> event list" where
  "new_events w w' = drop (length (trace w)) (trace w')"

subsection \<open>Answers of the outside world\<close>

text \<open>
  One record per operation holds what the wallet and the chain answer to each call that
  operation makes, in call order. A nested operation has its own record, since it
  connects and asks again.
\<close>

record accessor_env =
  connect_result :: "ext_error + unit"
  network_result :: "ext_error + int"

record count_env =
  count_accessor :: accessor_env
  numAddressesWhitelisted_result :: "ext_error + int"

record member_env =
  member_accessor :: accessor_env
  getAddress_result :: "ext_error + address"
  whitelistedAddress_result :: "address \<Rightarrow> ext_error + bool"

record join_env =
  join_accessor :: accessor_env
  addAddressToWhitelist_result :: "ext_error + unit"
  wait_result :: "ext_error + unit"
  join_count :: count_env

record connect_env =
  connect_accessor :: accessor_env
  connect_member :: member_env
  connect_count :: count_env

section \<open>The operations\<close>

text \<open>
  Modelled from the spec: the wallet connector behind \<^verbatim>\<open>web3ModalRef.current.connect()\<close>
  is the \<^verbatim>\<open>web3modal\<close> package, which is not among the sources. The spec has the
  connection handle "created on first connect, never explicitly destroyed" and
  \<^verbatim>\<open>connect()\<close> "prompting the user's wallet extension on first call"; the page's own
  comment says the same ("When used for the first time, it prompts the user to connect
  their wallet"). So a call prompts exactly when no handle exists yet, and a call that
  succeeds leaves the handle in place.
\<close>

definition modal_connect :: "ext_error + unit \<Rightarrow> world \<Rightarrow> (error + unit) \<times> world" where
  "modal_connect r w =
     (let w1 = (if connectionHandle w then w else emit WalletPrompt w)
      in case r of
           Inl e \<Rightarrow> (Inl (External e), w1)
         | Inr u \<Rightarrow> (Inr u, w1\<lparr>connectionHandle := True\<rparr>))"

text \<open>
  \<^verbatim>\<open>getProviderOrSigner(needSigner = false)\<close>, lines 33-51: call the connector's
  \<^verbatim>\<open>connect()\<close> (the event \<open>ModalConnect\<close> is this call, made on every run), read the
  chain id, alert and throw unless it is 4, then hand out the signer or the provider.
\<close>

definition getProviderOrSigner ::
  "accessor_env \<Rightarrow> bool \<Rightarrow> world \<Rightarrow> (error + accessor) \<times> world" where
  "getProviderOrSigner env needSigner w =
     (case web3ModalRef w of
        None \<Rightarrow> (Inl (TypeError ''web3ModalRef.current is undefined''), w)
      | Some m \<Rightarrow>
          (case modal_connect (connect_result env) (emit ModalConnect w) of
             (Inl e, w1) \<Rightarrow> (Inl e, w1)
           | (Inr provider, w1) \<Rightarrow>
               (let w2 = emit GetNetwork w1 in
                case network_result env of
                  Inl e \<Rightarrow> (Inl (External e), w2)
                | Inr chainId \<Rightarrow>
                    if chainId \<noteq> 4 then
                      (Inl (Error ''Change network to Rinkeby''),
                       emit (Alert ''Change the network to Rinkeby'') w2)
                    else if needSigner then (Inr Signer, emit GetSigner w2)
                    else (Inr Provider, w2))))"

text \<open>
  Every operation is \<^verbatim>\<open>try { body } catch (err) { console.error(err) }\<close>: the body is
  the \<open>_try\<close> function, and \<open>catch_log\<close> is the handler, after which the operation
  has returned normally.
\<close>

definition catch_log :: "(error + unit) \<times> world \<Rightarrow> (error + unit) \<times> world" where
  "catch_log rw =
     (case rw of
        (Inl err, w) \<Rightarrow> (Inr (), emit (ConsoleError err) w)
      | (Inr u, w) \<Rightarrow> (Inr u, w))"

text \<open>\<^verbatim>\<open>getNumberOfWhitelisted\<close>, lines 83-101.\<close>

definition getNumberOfWhitelisted_try :: "count_env \<Rightarrow> world \<Rightarrow> (error + unit) \<times> world" where
  "getNumberOfWhitelisted_try env w =
     (case getProviderOrSigner (count_accessor env) False w of
        (Inl e, w1) \<Rightarrow> (Inl e, w1)
      | (Inr provider, w1) \<Rightarrow>
          (let w2 = emit (NewContract provider) w1;
               w3 = emit CallNumAddressesWhitelisted w2
           in case numAddressesWhitelisted_result env of
                Inl e \<Rightarrow> (Inl (External e), w3)
              | Inr n \<Rightarrow> (Inr (), setNumberOfWhitelisted n w3)))"

definition getNumberOfWhitelisted :: "count_env \<Rightarrow> world \<Rightarrow> (error + unit) \<times> world" where
  "getNumberOfWhitelisted env w = catch_log (getNumberOfWhitelisted_try env w)"

text \<open>\<^verbatim>\<open>checkIfAddressInWhitelist\<close>, lines 106-127.\<close>

definition checkIfAddressInWhitelist_try ::
  "member_env \<Rightarrow> world \<Rightarrow> (error + unit) \<times> world" where
  "checkIfAddressInWhitelist_try env w =
     (case getProviderOrSigner (member_accessor env) True w of
        (Inl e, w1) \<Rightarrow> (Inl e, w1)
      | (Inr signer, w1) \<Rightarrow>
          (let w2 = emit (NewContract signer) w1;
               w3 = emit GetAddress w2
           in case getAddress_result env of
                Inl e \<Rightarrow> (Inl (External e), w3)
              | Inr addr \<Rightarrow>
                  (let w4 = emit (CallWhitelistedAddress addr) w3
                   in case whitelistedAddress_result env addr of
                        Inl e \<Rightarrow> (Inl (External e), w4)
                      | Inr b \<Rightarrow> (Inr (), setJoinedWhitelist b w4))))"

definition checkIfAddressInWhitelist ::
  "member_env \<Rightarrow> world \<Rightarrow> (error + unit) \<times> world" where
  "checkIfAddressInWhitelist env w = catch_log (checkIfAddressInWhitelist_try env w)"

text \<open>\<^verbatim>\<open>addAddressToWhitelist\<close>, lines 56-78.\<close>

definition addAddressToWhitelist_try :: "join_env \<Rightarrow> world \<Rightarrow> (error + unit) \<times> world" where
  "addAddressToWhitelist_try env w =
     (case getProviderOrSigner (join_accessor env) True w of
        (Inl e, w1) \<Rightarrow> (Inl e, w1)
      | (Inr signer, w1) \<Rightarrow>
          (let w2 = emit (NewContract signer) w1;
               w3 = emit SendAddAddressToWhitelist w2
           in case addAddressToWhitelist_result env of
                Inl e \<Rightarrow> (Inl (External e), w3)
              | Inr tx \<Rightarrow>
                  (let w4 = setLoading True w3;
                       w5 = emit TxWait w4
                   in case wait_result env of
                        Inl e \<Rightarrow> (Inl (External e), w5)
                      | Inr receipt \<Rightarrow>
                          (let w6 = setLoading False w5
                           in getNumberOfWhitelisted (join_count env) w6))))"

definition addAddressToWhitelist :: "join_env \<Rightarrow> world \<Rightarrow> (error + unit) \<times> world" where
  "addAddressToWhitelist env w = catch_log (addAddressToWhitelist_try env w)"

text \<open>
  \<^verbatim>\<open>connectWallet\<close>, lines 132-144. The two refreshes are started without \<^verbatim>\<open>await\<close>
  and their promises dropped, so in the page they interleave at their awaits while
  \<open>connectWallet\<close> has already returned. Here the membership check runs to its end
  before the count. The two write different state cells and read none, so the UI state
  reached is the page's; the order of their events in the trace is one serial order, not
  the page's interleaving. What precedes \<open>setWalletConnected\<close> is not concerned.
\<close>

definition connectWallet_try :: "connect_env \<Rightarrow> world \<Rightarrow> (error + unit) \<times> world" where
  "connectWallet_try env w =
     (case getProviderOrSigner (connect_accessor env) False w of
        (Inl e, w1) \<Rightarrow> (Inl e, w1)
      | (Inr provider, w1) \<Rightarrow>
          (let w2 = setWalletConnected True w1;
               w3 = snd (checkIfAddressInWhitelist (connect_member env) w2);
               w4 = snd (getNumberOfWhitelisted (connect_count env) w3)
           in (Inr (), w4)))"

definition connectWallet :: "connect_env \<Rightarrow> world \<Rightarrow> (error + unit) \<times> world" where
  "connectWallet env w = catch_log (connectWallet_try env w)"

section \<open>Rendering\<close>

text \<open>The two click handlers the page binds, and a JSX element with what the page sets.\<close>

datatype handler = ConnectWalletHandler | AddAddressToWhitelistHandler

datatype element =
  Element (tag: string) (onClick: "handler option") (className: string) (children: string)

text \<open>\<^verbatim>\<open>renderButton\<close>, lines 149-174.\<close>

definition renderButton :: "UIState \<Rightarrow> element" where
  "renderButton s =
     (if walletConnected s then
        (if joinedWhitelist s then
           Element ''div'' None ''description'' ''Thanks for joining the Whitelist''
         else if loading s then
           Element ''button'' None ''button'' ''Loading...''
         else
           Element ''button'' (Some AddAddressToWhitelistHandler) ''button''
             ''Join the Whitelist'')
      else
        Element ''button'' (Some ConnectWalletHandler) ''button'' ''Connect your wallet'')"

text \<open>
  The four variants the spec names for \<open>render()\<close>. The loading button carries no
  \<^verbatim>\<open>onClick\<close>: that is how the page disables the action.
\<close>

definition connectVariant :: element where
  "connectVariant = Element ''button'' (Some ConnectWalletHandler) ''button'' ''Connect your wallet''"

definition memberVariant :: element where
  "memberVariant = Element ''div'' None ''description'' ''Thanks for joining the Whitelist''"

definition loadingVariant :: element where
  "loadingVariant = Element ''button'' None ''button'' ''Loading...''"

definition joinVariant :: element where
  "joinVariant =
     Element ''button'' (Some AddAddressToWhitelistHandler) ''button'' ''Join the Whitelist''"

section \<open>The effect and the page as a state machine\<close>

text \<open>
  \<^verbatim>\<open>useEffect(..., [walletConnected])\<close>, lines 179-191: unless the wallet is connected,
  store a new \<^verbatim>\<open>Web3Modal\<close> in the reference and start \<^verbatim>\<open>connectWallet\<close>.
\<close>

definition useEffect :: "connect_env \<Rightarrow> world \<Rightarrow> world" where
  "useEffect env w =
     (if \<not> walletConnected (ui w) then
        (let w1 = emit NewWeb3Modal
                    (w\<lparr>web3ModalRef :=
                         Some \<lparr>network = ''rinkeby'', providerOptions = [],
                               disableInjectedProvider = False\<rparr>\<rparr>)
         in snd (connectWallet env w1))
      else w)"

text \<open>A click runs the handler of the button that is rendered, if it has one.\<close>

record click_env =
  click_connect :: connect_env
  click_join :: join_env

definition click :: "click_env \<Rightarrow> world \<Rightarrow> world" where
  "click env w =
     (case onClick (renderButton (ui w)) of
        None \<Rightarrow> w
      | Some ConnectWalletHandler \<Rightarrow> snd (connectWallet (click_connect env) w)
      | Some AddAddressToWhitelistHandler \<Rightarrow> snd (addAddressToWhitelist (click_join env) w))"

text \<open>
  A serial schedule of the page: the effect runs or the user clicks, and each handler
  runs to its end before the next action starts. The page itself awaits neither the
  effect's \<^verbatim>\<open>connectWallet()\<close> nor a handler before it takes the next click, so it
  has more executions than these. \<open>run\<close> is used to exhibit executions of the page,
  never to bound them.
\<close>

datatype action = RunEffect connect_env | Click click_env

fun step :: "action \<Rightarrow> world \<Rightarrow> world" where
  "step (RunEffect env) w = useEffect env w"
| "step (Click env) w = click env w"

fun run :: "action list \<Rightarrow> world \<Rightarrow> world" where
  "run [] w = w"
| "run (a # as) w = run as (step a w)"

text \<open>The page as \<^verbatim>\<open>useState(false)\<close>, \<^verbatim>\<open>useState(0)\<close> and \<^verbatim>\<open>useRef()\<close> create it.\<close>

definition initial_world :: world where
  "initial_world =
     \<lparr>ui = \<lparr>walletConnected = False, joinedWhitelist = False, loading = False,
            numberOfWhitelisted = 0\<rparr>,
      web3ModalRef = None, connectionHandle = False, trace = []\<rparr>"

text \<open>What one call of the connector adds to the trace: a prompt only without a handle.\<close>

definition connect_events :: "world \<Rightarrow> event list" where
  "connect_events w =
     (if connectionHandle w then [ModalConnect] else [ModalConnect, WalletPrompt])"

text \<open>The events of the membership check.\<close>

fun membership_event :: "event \<Rightarrow> bool" where
  "membership_event GetAddress = True"
| "membership_event (CallWhitelistedAddress a) = True"
| "membership_event (SetJoinedWhitelist b) = True"
| "membership_event e = False"

subsection \<open>Concrete answers for the scenarios\<close>

definition rinkeby :: accessor_env where
  "rinkeby = \<lparr>connect_result = Inr (), network_result = Inr 4\<rparr>"

definition mainnet :: accessor_env where
  "mainnet = \<lparr>connect_result = Inr (), network_result = Inr 1\<rparr>"

definition count_answers :: "int \<Rightarrow> count_env" where
  "count_answers n = \<lparr>count_accessor = rinkeby, numAddressesWhitelisted_result = Inr n\<rparr>"

definition count_fails :: count_env where
  "count_fails =
     \<lparr>count_accessor = rinkeby, numAddressesWhitelisted_result = Inl RpcOrContract\<rparr>"

definition member_answers :: "bool \<Rightarrow> member_env" where
  "member_answers b =
     \<lparr>member_accessor = rinkeby, getAddress_result = Inr ''0xA11CE'',
      whitelistedAddress_result = (\<lambda>a. Inr (a = ''0xA11CE'' \<and> b))\<rparr>"

definition member_fails :: member_env where
  "member_fails =
     \<lparr>member_accessor = rinkeby, getAddress_result = Inr ''0xA11CE'',
      whitelistedAddress_result = (\<lambda>a. Inl RpcOrContract)\<rparr>"

definition join_confirmed :: join_env where
  "join_confirmed =
     \<lparr>join_accessor = rinkeby, addAddressToWhitelist_result = Inr (),
      wait_result = Inr (), join_count = count_answers 4\<rparr>"

definition join_rejected :: join_env where
  "join_rejected =
     \<lparr>join_accessor = rinkeby, addAddressToWhitelist_result = Inl WalletRejection,
      wait_result = Inr (), join_count = count_answers 4\<rparr>"

definition join_connect_rejected :: join_env where
  "join_connect_rejected =
     \<lparr>join_accessor = \<lparr>connect_result = Inl WalletRejection, network_result = Inr 4\<rparr>,
      addAddressToWhitelist_result = Inr (), wait_result = Inr (),
      join_count = count_answers 4\<rparr>"

definition join_wait_fails :: join_env where
  "join_wait_fails =
     \<lparr>join_accessor = rinkeby, addAddressToWhitelist_result = Inr (),
      wait_result = Inl RpcOrContract, join_count = count_answers 4\<rparr>"

definition connect_rinkeby :: connect_env where
  "connect_rinkeby =
     \<lparr>connect_accessor = rinkeby, connect_member = member_answers False,
      connect_count = count_answers 3\<rparr>"

definition connect_mainnet :: connect_env where
  "connect_mainnet =
     \<lparr>connect_accessor = mainnet, connect_member = member_answers False,
      connect_count = count_answers 3\<rparr>"

text \<open>The page after a load that connected on Rinkeby and read a count of 3.\<close>

definition connected_world :: world where
  "connected_world =
     \<lparr>ui = \<lparr>walletConnected = True, joinedWhitelist = False, loading = False,
            numberOfWhitelisted = 3\<rparr>,
      web3ModalRef = Some \<lparr>network = ''rinkeby'', providerOptions = [],
                           disableInjectedProvider = False\<rparr>,
      connectionHandle = True, trace = []\<rparr>"

text \<open>The page after the effect stored the connector, before anything connected.\<close>

definition mounted_world :: world where
  "mounted_world =
     initial_world\<lparr>web3ModalRef :=
       Some \<lparr>network = ''rinkeby'', providerOptions = [],
             disableInjectedProvider = False\<rparr>\<rparr>"

section \<open>Basic facts\<close>

lemma trace_emit: "trace (emit e w) = trace w @ [e]"
  by (simp add: emit_def)

lemma ui_emit: "ui (emit e w) = ui w"
  by (simp add: emit_def)

lemma ref_emit: "web3ModalRef (emit e w) = web3ModalRef w"
  by (simp add: emit_def)

lemma new_events_append: "trace w' = trace w @ xs \<Longrightarrow> new_events w w' = xs"
  by (simp add: new_events_def)

lemmas op_defs = getProviderOrSigner_def modal_connect_def catch_log_def emit_def Let_def
  setWalletConnected_def setJoinedWhitelist_def setLoading_def setNumberOfWhitelisted_def

lemmas scenario_defs = rinkeby_def mainnet_def count_answers_def count_fails_def
  member_answers_def member_fails_def join_confirmed_def join_rejected_def
  join_wait_fails_def join_connect_rejected_def connect_rinkeby_def connect_mainnet_def
  connected_world_def mounted_world_def initial_world_def

subsection \<open>The catch handler\<close>

lemma catch_log_Inl:
  "fst rw = Inl e \<Longrightarrow> catch_log rw = (Inr (), emit (ConsoleError e) (snd rw))"
  by (cases rw) (simp add: catch_log_def)

lemma catch_log_Inr: "fst rw = Inr u \<Longrightarrow> catch_log rw = rw"
  by (cases rw) (simp add: catch_log_def)

lemma catch_log_returns: "fst (catch_log rw) = Inr ()"
  by (cases rw) (simp add: catch_log_def split: sum.splits)

subsection \<open>Obtaining the accessor\<close>

lemma getProviderOrSigner_ui: "ui (snd (getProviderOrSigner env needSigner w)) = ui w"
  by (simp add: getProviderOrSigner_def modal_connect_def Let_def ui_emit
      split: option.splits sum.splits prod.splits)

lemma getProviderOrSigner_ref:
  "web3ModalRef (snd (getProviderOrSigner env needSigner w)) = web3ModalRef w"
  by (simp add: getProviderOrSigner_def modal_connect_def Let_def ref_emit
      split: option.splits sum.splits prod.splits)

lemma getProviderOrSigner_success:
  assumes "web3ModalRef w \<noteq> None" "connect_result env = Inr ()" "network_result env = Inr 4"
  shows "getProviderOrSigner env needSigner w =
     (if needSigner
      then (Inr Signer, w\<lparr>connectionHandle := True,
              trace := trace w @ connect_events w @ [GetNetwork, GetSigner]\<rparr>)
      else (Inr Provider, w\<lparr>connectionHandle := True,
              trace := trace w @ connect_events w @ [GetNetwork]\<rparr>))"
  using assms
  by (auto simp: getProviderOrSigner_def modal_connect_def Let_def emit_def connect_events_def)

lemma getProviderOrSigner_wrong_network:
  assumes "web3ModalRef w \<noteq> None" "connect_result env = Inr ()"
    "network_result env = Inr chainId" "chainId \<noteq> 4"
  shows "getProviderOrSigner env needSigner w =
     (Inl (Error ''Change network to Rinkeby''),
      w\<lparr>connectionHandle := True,
        trace := trace w @ connect_events w @
                 [GetNetwork, Alert ''Change the network to Rinkeby'']\<rparr>)"
  using assms
  by (auto simp: getProviderOrSigner_def modal_connect_def Let_def emit_def connect_events_def)

lemma getProviderOrSigner_Inr:
  "fst (getProviderOrSigner env needSigner w) = Inr a \<longleftrightarrow>
      web3ModalRef w \<noteq> None \<and> connect_result env = Inr () \<and> network_result env = Inr 4 \<and>
      a = (if needSigner then Signer else Provider)"
  by (auto simp: getProviderOrSigner_def modal_connect_def Let_def
      split: option.splits sum.splits prod.splits)

lemma getProviderOrSigner_handle_mono:
  "connectionHandle w \<Longrightarrow> connectionHandle (snd (getProviderOrSigner env needSigner w))"
  by (auto simp: getProviderOrSigner_def modal_connect_def Let_def emit_def
      split: option.splits sum.splits prod.splits)

lemma getProviderOrSigner_events:
  "\<exists>xs. trace (snd (getProviderOrSigner env needSigner w)) = trace w @ xs \<and>
        filter membership_event xs = [] \<and>
        SetLoading True \<notin> set xs"
  by (simp add: getProviderOrSigner_def modal_connect_def Let_def emit_def
      split: option.splits sum.splits prod.splits)

subsection \<open>Reading the count\<close>

lemma getNumberOfWhitelisted_frame:
  "walletConnected (ui (snd (getNumberOfWhitelisted env w))) = walletConnected (ui w) \<and>
   joinedWhitelist (ui (snd (getNumberOfWhitelisted env w))) = joinedWhitelist (ui w) \<and>
   loading (ui (snd (getNumberOfWhitelisted env w))) = loading (ui w) \<and>
   web3ModalRef (snd (getNumberOfWhitelisted env w)) = web3ModalRef w \<and>
   (connectionHandle w \<longrightarrow> connectionHandle (snd (getNumberOfWhitelisted env w)))"
  by (simp add: getNumberOfWhitelisted_def getNumberOfWhitelisted_try_def op_defs
      split: option.splits sum.splits prod.splits)

lemma getNumberOfWhitelisted_trace:
  "\<exists>xs. trace (snd (getNumberOfWhitelisted env w)) = trace w @ xs \<and>
        filter membership_event xs = []"
  by (simp add: getNumberOfWhitelisted_def getNumberOfWhitelisted_try_def op_defs
      split: option.splits sum.splits prod.splits)

lemma getNumberOfWhitelisted_returns: "fst (getNumberOfWhitelisted env w) = Inr ()"
  by (simp add: getNumberOfWhitelisted_def catch_log_returns)

lemma getNumberOfWhitelisted_try_fail_ui:
  "fst (getNumberOfWhitelisted_try env w) = Inl e \<Longrightarrow>
   ui (snd (getNumberOfWhitelisted_try env w)) = ui w"
  using getProviderOrSigner_ui [of "count_accessor env" False w]
  by (auto simp: getNumberOfWhitelisted_try_def Let_def ui_emit
      split: prod.splits sum.splits)

lemma getNumberOfWhitelisted_try_fails_iff:
  "(\<exists>e. fst (getNumberOfWhitelisted_try env w) = Inl e) \<longleftrightarrow>
   (\<exists>e. fst (getProviderOrSigner (count_accessor env) False w) = Inl e) \<or>
   (\<exists>x. numAddressesWhitelisted_result env = Inl x)"
  by (auto simp: getNumberOfWhitelisted_try_def Let_def split: prod.splits sum.splits)

subsection \<open>Reading the membership\<close>

lemma checkIfAddressInWhitelist_frame:
  "walletConnected (ui (snd (checkIfAddressInWhitelist env w))) = walletConnected (ui w) \<and>
   numberOfWhitelisted (ui (snd (checkIfAddressInWhitelist env w))) =
     numberOfWhitelisted (ui w) \<and>
   loading (ui (snd (checkIfAddressInWhitelist env w))) = loading (ui w) \<and>
   web3ModalRef (snd (checkIfAddressInWhitelist env w)) = web3ModalRef w \<and>
   (connectionHandle w \<longrightarrow> connectionHandle (snd (checkIfAddressInWhitelist env w)))"
  by (simp add: checkIfAddressInWhitelist_def checkIfAddressInWhitelist_try_def op_defs
      split: option.splits sum.splits prod.splits)

lemma checkIfAddressInWhitelist_try_fail_ui:
  "fst (checkIfAddressInWhitelist_try env w) = Inl e \<Longrightarrow>
   ui (snd (checkIfAddressInWhitelist_try env w)) = ui w"
  using getProviderOrSigner_ui [of "member_accessor env" True w]
  by (auto simp: checkIfAddressInWhitelist_try_def Let_def ui_emit
      split: prod.splits sum.splits)

lemma checkIfAddressInWhitelist_try_fails_iff:
  "(\<exists>e. fst (checkIfAddressInWhitelist_try env w) = Inl e) \<longleftrightarrow>
   (\<exists>e. fst (getProviderOrSigner (member_accessor env) True w) = Inl e) \<or>
   (\<exists>x. getAddress_result env = Inl x) \<or>
   (\<exists>a x. getAddress_result env = Inr a \<and> whitelistedAddress_result env a = Inl x)"
  by (auto simp: checkIfAddressInWhitelist_try_def Let_def split: prod.splits sum.splits)

lemma member_accessor_fails:
  assumes "fst (getProviderOrSigner (member_accessor env) True w) = Inl e"
  shows "checkIfAddressInWhitelist_try env w =
           (Inl e, snd (getProviderOrSigner (member_accessor env) True w))"
  using assms
  by (cases "getProviderOrSigner (member_accessor env) True w")
     (simp add: checkIfAddressInWhitelist_try_def)

lemma member_after_accessor:
  assumes "fst (getProviderOrSigner (member_accessor env) True w) = Inr a"
  shows "checkIfAddressInWhitelist_try env w =
     (let w3 = emit GetAddress
                 (emit (NewContract a) (snd (getProviderOrSigner (member_accessor env) True w)))
      in case getAddress_result env of
           Inl e \<Rightarrow> (Inl (External e), w3)
         | Inr addr \<Rightarrow>
             (let w4 = emit (CallWhitelistedAddress addr) w3
              in case whitelistedAddress_result env addr of
                   Inl e \<Rightarrow> (Inl (External e), w4)
                 | Inr b \<Rightarrow> (Inr (), setJoinedWhitelist b w4)))"
  using assms
  by (cases "getProviderOrSigner (member_accessor env) True w")
     (simp add: checkIfAddressInWhitelist_try_def Let_def)

lemma checkIfAddressInWhitelist_try_Inr:
  assumes "fst (checkIfAddressInWhitelist_try env w) = Inr ()"
  obtains addr b where
    "web3ModalRef w \<noteq> None" "connect_result (member_accessor env) = Inr ()"
    "network_result (member_accessor env) = Inr 4"
    "getAddress_result env = Inr addr" "whitelistedAddress_result env addr = Inr b"
proof (cases "fst (getProviderOrSigner (member_accessor env) True w)")
  case (Inl e)
  with assms show ?thesis by (simp add: member_accessor_fails)
next
  case (Inr a)
  then have acc: "web3ModalRef w \<noteq> None" "connect_result (member_accessor env) = Inr ()"
    "network_result (member_accessor env) = Inr 4"
    by (simp_all add: getProviderOrSigner_Inr)
  from assms Inr obtain addr b where
    "getAddress_result env = Inr addr" "whitelistedAddress_result env addr = Inr b"
    by (auto simp: member_after_accessor Let_def split: sum.splits)
  with acc show ?thesis by (rule that)
qed

subsection \<open>Joining\<close>

text \<open>The four ways the body of \<open>addAddressToWhitelist\<close> can go.\<close>

lemma join_try_accessor_fails:
  assumes "fst (getProviderOrSigner (join_accessor env) True w) = Inl e"
  shows "addAddressToWhitelist_try env w =
           (Inl e, snd (getProviderOrSigner (join_accessor env) True w))"
  using assms
  by (cases "getProviderOrSigner (join_accessor env) True w")
     (simp add: addAddressToWhitelist_try_def)

lemma join_try_submit_fails:
  assumes "fst (getProviderOrSigner (join_accessor env) True w) = Inr a"
    and "addAddressToWhitelist_result env = Inl x"
  shows "addAddressToWhitelist_try env w =
           (Inl (External x),
            emit SendAddAddressToWhitelist
              (emit (NewContract a) (snd (getProviderOrSigner (join_accessor env) True w))))"
  using assms
  by (cases "getProviderOrSigner (join_accessor env) True w")
     (simp add: addAddressToWhitelist_try_def Let_def)

lemma join_try_wait_fails:
  assumes "fst (getProviderOrSigner (join_accessor env) True w) = Inr a"
    and "addAddressToWhitelist_result env = Inr ()"
    and "wait_result env = Inl x"
  shows "addAddressToWhitelist_try env w =
           (Inl (External x),
            emit TxWait (setLoading True (emit SendAddAddressToWhitelist
              (emit (NewContract a)
                 (snd (getProviderOrSigner (join_accessor env) True w))))))"
  using assms
  by (cases "getProviderOrSigner (join_accessor env) True w")
     (simp add: addAddressToWhitelist_try_def Let_def)

lemma join_try_confirmed:
  assumes "fst (getProviderOrSigner (join_accessor env) True w) = Inr a"
    and "addAddressToWhitelist_result env = Inr ()"
    and "wait_result env = Inr ()"
  shows "addAddressToWhitelist_try env w =
           getNumberOfWhitelisted (join_count env)
             (setLoading False (emit TxWait (setLoading True (emit SendAddAddressToWhitelist
                (emit (NewContract a)
                   (snd (getProviderOrSigner (join_accessor env) True w)))))))"
  using assms
  by (cases "getProviderOrSigner (join_accessor env) True w")
     (simp add: addAddressToWhitelist_try_def Let_def)

lemma join_cases:
  obtains
    (accessor) e where "fst (getProviderOrSigner (join_accessor env) True w) = Inl e"
  | (submit) a x where "fst (getProviderOrSigner (join_accessor env) True w) = Inr a"
      "addAddressToWhitelist_result env = Inl x"
  | (wait) a x where "fst (getProviderOrSigner (join_accessor env) True w) = Inr a"
      "addAddressToWhitelist_result env = Inr ()" "wait_result env = Inl x"
  | (confirmed) a where "fst (getProviderOrSigner (join_accessor env) True w) = Inr a"
      "addAddressToWhitelist_result env = Inr ()" "wait_result env = Inr ()"
proof (cases "fst (getProviderOrSigner (join_accessor env) True w)")
  case (Inl e)
  then show ?thesis by (rule accessor)
next
  case (Inr a)
  show ?thesis
  proof (cases "addAddressToWhitelist_result env")
    case (Inl x)
    with Inr show ?thesis by (rule submit)
  next
    case tx: (Inr u)
    show ?thesis
    proof (cases "wait_result env")
      case (Inl x)
      with Inr tx show ?thesis by (simp add: wait)
    next
      case r: (Inr u')
      with Inr tx show ?thesis by (simp add: confirmed)
    qed
  qed
qed

lemma addAddressToWhitelist_try_Inr:
  "fst (addAddressToWhitelist_try env w) = Inr () \<longleftrightarrow>
     web3ModalRef w \<noteq> None \<and> connect_result (join_accessor env) = Inr () \<and>
     network_result (join_accessor env) = Inr 4 \<and>
     addAddressToWhitelist_result env = Inr () \<and> wait_result env = Inr ()"
proof (cases rule: join_cases [of env w])
  case (accessor e)
  then show ?thesis
    using getProviderOrSigner_Inr [of "join_accessor env" True w Signer]
    by (auto simp: join_try_accessor_fails)
next
  case (submit a x)
  then show ?thesis by (simp add: join_try_submit_fails)
next
  case (wait a x)
  then show ?thesis by (simp add: join_try_wait_fails)
next
  case (confirmed a)
  then show ?thesis
    using getProviderOrSigner_Inr [of "join_accessor env" True w a]
    by (simp add: join_try_confirmed getNumberOfWhitelisted_returns)
qed

lemma addAddressToWhitelist_frame:
  "walletConnected (ui (snd (addAddressToWhitelist env w))) = walletConnected (ui w) \<and>
   joinedWhitelist (ui (snd (addAddressToWhitelist env w))) = joinedWhitelist (ui w) \<and>
   web3ModalRef (snd (addAddressToWhitelist env w)) = web3ModalRef w \<and>
   (connectionHandle w \<longrightarrow> connectionHandle (snd (addAddressToWhitelist env w)))"
proof -
  let ?acc = "getProviderOrSigner (join_accessor env) True w"
  note acc = getProviderOrSigner_ui [of "join_accessor env" True w]
    getProviderOrSigner_ref [of "join_accessor env" True w]
    getProviderOrSigner_handle_mono [of w "join_accessor env" True]
  show ?thesis
  proof (cases rule: join_cases [of env w])
    case (accessor e)
    then show ?thesis
      using acc by (simp add: addAddressToWhitelist_def join_try_accessor_fails catch_log_def emit_def)
  next
    case (submit a x)
    then show ?thesis
      using acc by (simp add: addAddressToWhitelist_def join_try_submit_fails catch_log_def emit_def)
  next
    case (wait a x)
    then show ?thesis
      using acc
      by (simp add: addAddressToWhitelist_def join_try_wait_fails catch_log_def emit_def
          setLoading_def)
  next
    case (confirmed a)
    then show ?thesis
      using acc
      by (simp add: addAddressToWhitelist_def join_try_confirmed
          catch_log_Inr [OF getNumberOfWhitelisted_returns] getNumberOfWhitelisted_frame
          emit_def setLoading_def)
  qed
qed

lemma addAddressToWhitelist_trace:
  "\<exists>xs. trace (snd (addAddressToWhitelist env w)) = trace w @ xs \<and>
        filter membership_event xs = []"
proof -
  let ?w1 = "snd (getProviderOrSigner (join_accessor env) True w)"
  obtain xs where xs: "trace ?w1 = trace w @ xs" "filter membership_event xs = []"
    using getProviderOrSigner_events [of "join_accessor env" True w] by blast
  show ?thesis
  proof (cases rule: join_cases [of env w])
    case (accessor e)
    then show ?thesis
      using xs by (simp add: addAddressToWhitelist_def join_try_accessor_fails catch_log_def emit_def)
  next
    case (submit a x)
    then show ?thesis
      using xs by (simp add: addAddressToWhitelist_def join_try_submit_fails catch_log_def emit_def)
  next
    case (wait a x)
    then show ?thesis
      using xs
      by (simp add: addAddressToWhitelist_def join_try_wait_fails catch_log_def emit_def
          setLoading_def)
  next
    case (confirmed a)
    let ?w6 = "setLoading False (emit TxWait (setLoading True (emit SendAddAddressToWhitelist
                (emit (NewContract a) ?w1))))"
    have run: "addAddressToWhitelist env w = getNumberOfWhitelisted (join_count env) ?w6"
      using confirmed
      by (simp add: addAddressToWhitelist_def join_try_confirmed
          catch_log_Inr [OF getNumberOfWhitelisted_returns])
    have w6: "trace ?w6 = trace w @ xs @ [NewContract a, SendAddAddressToWhitelist,
                SetLoading True, TxWait, SetLoading False]"
      using xs(1) by (simp add: emit_def setLoading_def)
    obtain ys where ys: "trace (snd (getNumberOfWhitelisted (join_count env) ?w6)) =
        trace ?w6 @ ys" "filter membership_event ys = []"
      using getNumberOfWhitelisted_trace [of "join_count env" ?w6] by blast
    have "trace (snd (addAddressToWhitelist env w)) =
        trace w @ (xs @ [NewContract a, SendAddAddressToWhitelist,
                SetLoading True, TxWait, SetLoading False] @ ys)"
      using ys(1) w6 by (simp add: run)
    moreover have "filter membership_event (xs @ [NewContract a, SendAddAddressToWhitelist,
                SetLoading True, TxWait, SetLoading False] @ ys) = []"
      using xs(2) ys(2) by simp
    ultimately show ?thesis by blast
  qed
qed

lemma wait_failure_leaves_loading:
  assumes "fst (getProviderOrSigner (join_accessor env) True w) = Inr a"
    and "addAddressToWhitelist_result env = Inr ()"
    and "wait_result env = Inl x"
  shows "loading (ui (snd (addAddressToWhitelist env w)))"
  using assms
  by (simp add: addAddressToWhitelist_def join_try_wait_fails catch_log_def emit_def setLoading_def)

subsection \<open>Connecting\<close>

lemma connect_try_accessor_fails:
  assumes "fst (getProviderOrSigner (connect_accessor env) False w) = Inl e"
  shows "connectWallet_try env w =
           (Inl e, snd (getProviderOrSigner (connect_accessor env) False w))"
  using assms
  by (cases "getProviderOrSigner (connect_accessor env) False w")
     (simp add: connectWallet_try_def)

lemma connect_try_proceeds:
  assumes "fst (getProviderOrSigner (connect_accessor env) False w) = Inr a"
  shows "connectWallet_try env w =
           (Inr (),
            snd (getNumberOfWhitelisted (connect_count env)
              (snd (checkIfAddressInWhitelist (connect_member env)
                (setWalletConnected True
                  (snd (getProviderOrSigner (connect_accessor env) False w)))))))"
  using assms
  by (cases "getProviderOrSigner (connect_accessor env) False w")
     (simp add: connectWallet_try_def Let_def)

section \<open>Rendering is a total choice among four variants\<close>

text \<open>
  Claim C2. For every UI state, \<open>renderButton\<close> yields exactly one of four variants, picked
  in this order: the connect button when the wallet is not connected; the membership
  message when connected and a member, whatever \<open>loading\<close> is; the loading button, which
  has no click handler, when connected, not a member and loading; the join button, bound
  to \<open>addAddressToWhitelist\<close>, otherwise. The four variants are pairwise different.
\<close>

theorem renderButton_variants:
  "(\<not> walletConnected s \<longrightarrow> renderButton s = connectVariant) \<and>
   (walletConnected s \<and> joinedWhitelist s \<longrightarrow> renderButton s = memberVariant) \<and>
   (walletConnected s \<and> \<not> joinedWhitelist s \<and> loading s \<longrightarrow>
      renderButton s = loadingVariant) \<and>
   (walletConnected s \<and> \<not> joinedWhitelist s \<and> \<not> loading s \<longrightarrow>
      renderButton s = joinVariant) \<and>
   distinct [connectVariant, memberVariant, loadingVariant, joinVariant] \<and>
   onClick connectVariant = Some ConnectWalletHandler \<and>
   onClick memberVariant = None \<and>
   onClick loadingVariant = None \<and>
   onClick joinVariant = Some AddAddressToWhitelistHandler"
  by (simp add: renderButton_def connectVariant_def memberVariant_def loadingVariant_def
      joinVariant_def)

theorem renderButton_variants_witness:
  "renderButton \<lparr>walletConnected = False, joinedWhitelist = True, loading = True,
                 numberOfWhitelisted = 3\<rparr> = connectVariant \<and>
   renderButton \<lparr>walletConnected = True, joinedWhitelist = True, loading = True,
                 numberOfWhitelisted = 3\<rparr> = memberVariant \<and>
   renderButton \<lparr>walletConnected = True, joinedWhitelist = False, loading = True,
                 numberOfWhitelisted = 3\<rparr> = loadingVariant \<and>
   renderButton \<lparr>walletConnected = True, joinedWhitelist = False, loading = False,
                 numberOfWhitelisted = 3\<rparr> = joinVariant"
  using
    renderButton_variants [of "\<lparr>walletConnected = False, joinedWhitelist = True,
      loading = True, numberOfWhitelisted = 3\<rparr>"]
    renderButton_variants [of "\<lparr>walletConnected = True, joinedWhitelist = True,
      loading = True, numberOfWhitelisted = 3\<rparr>"]
    renderButton_variants [of "\<lparr>walletConnected = True, joinedWhitelist = False,
      loading = True, numberOfWhitelisted = 3\<rparr>"]
    renderButton_variants [of "\<lparr>walletConnected = True, joinedWhitelist = False,
      loading = False, numberOfWhitelisted = 3\<rparr>"]
  by simp

section \<open>The accessor follows the request, and the chain id gates it\<close>

text \<open>
  Claim C7. \<open>getProviderOrSigner\<close> never changes the UI state. It returns an accessor
  exactly when the reference holds a connector, the connection succeeds and the chain id
  is 4, and then the accessor is the signer when \<open>needSigner\<close> is true and the provider
  when it is false. It fails with the wrong-network error exactly when the connection
  succeeded and the chain id read from it is not 4.
\<close>

theorem getProviderOrSigner_accessor:
  "ui (snd (getProviderOrSigner env needSigner w)) = ui w \<and>
   (fst (getProviderOrSigner env needSigner w) = Inr a \<longleftrightarrow>
      web3ModalRef w \<noteq> None \<and> connect_result env = Inr () \<and> network_result env = Inr 4 \<and>
      a = (if needSigner then Signer else Provider)) \<and>
   (fst (getProviderOrSigner env needSigner w) = Inl (Error ''Change network to Rinkeby'') \<longleftrightarrow>
      web3ModalRef w \<noteq> None \<and> connect_result env = Inr () \<and>
      (case network_result env of Inl e \<Rightarrow> False | Inr chainId \<Rightarrow> chainId \<noteq> 4))"
  by (auto simp: getProviderOrSigner_def modal_connect_def Let_def ui_emit
      split: option.splits sum.splits prod.splits)

theorem getProviderOrSigner_accessor_witness:
  "fst (getProviderOrSigner rinkeby True mounted_world) = Inr Signer \<and>
   fst (getProviderOrSigner rinkeby False mounted_world) = Inr Provider \<and>
   fst (getProviderOrSigner mainnet True mounted_world) =
     Inl (Error ''Change network to Rinkeby'') \<and>
   ui (snd (getProviderOrSigner mainnet True mounted_world)) = ui mounted_world"
  using getProviderOrSigner_accessor [of rinkeby True mounted_world Signer]
    getProviderOrSigner_accessor [of rinkeby False mounted_world Provider]
    getProviderOrSigner_accessor [of mainnet True mounted_world]
  by (simp add: rinkeby_def mainnet_def mounted_world_def initial_world_def)

section \<open>A failed read changes nothing\<close>

text \<open>
  Claim C3. When the body of a read operation fails, whatever the cause (no connector,
  a rejected connection, the wrong network, a failed call), the operation still returns
  normally, the UI state is the one it started from, and the error it failed with is the
  last thing written to the console. This holds for the count and for the membership.
\<close>

theorem failed_read_keeps_state:
  "(fst (getNumberOfWhitelisted_try env w) = Inl e \<longrightarrow>
      fst (getNumberOfWhitelisted env w) = Inr () \<and>
      ui (snd (getNumberOfWhitelisted env w)) = ui w \<and>
      trace (snd (getNumberOfWhitelisted env w)) =
        trace (snd (getNumberOfWhitelisted_try env w)) @ [ConsoleError e]) \<and>
   (fst (checkIfAddressInWhitelist_try menv w) = Inl e' \<longrightarrow>
      fst (checkIfAddressInWhitelist menv w) = Inr () \<and>
      ui (snd (checkIfAddressInWhitelist menv w)) = ui w \<and>
      trace (snd (checkIfAddressInWhitelist menv w)) =
        trace (snd (checkIfAddressInWhitelist_try menv w)) @ [ConsoleError e'])"
  by (simp add: getNumberOfWhitelisted_def checkIfAddressInWhitelist_def catch_log_Inl
      ui_emit trace_emit getNumberOfWhitelisted_try_fail_ui checkIfAddressInWhitelist_try_fail_ui)

lemma count_fails_try:
  "fst (getNumberOfWhitelisted_try count_fails connected_world) = Inl (External RpcOrContract)"
  by (simp add: getNumberOfWhitelisted_try_def op_defs scenario_defs)

lemma member_fails_try:
  "fst (checkIfAddressInWhitelist_try member_fails connected_world) =
     Inl (External RpcOrContract)"
  by (simp add: checkIfAddressInWhitelist_try_def op_defs scenario_defs)

theorem failed_read_keeps_state_witness:
  "fst (getNumberOfWhitelisted_try count_fails connected_world) = Inl (External RpcOrContract) \<and>
   fst (checkIfAddressInWhitelist_try member_fails connected_world) =
     Inl (External RpcOrContract) \<and>
   numberOfWhitelisted (ui (snd (getNumberOfWhitelisted count_fails connected_world))) = 3 \<and>
   joinedWhitelist (ui (snd (checkIfAddressInWhitelist member_fails connected_world))) = False \<and>
   fst (getNumberOfWhitelisted count_fails connected_world) = Inr () \<and>
   fst (checkIfAddressInWhitelist member_fails connected_world) = Inr ()"
  using failed_read_keeps_state [of count_fails connected_world "External RpcOrContract"
      member_fails "External RpcOrContract"] count_fails_try member_fails_try
  by (simp add: connected_world_def)

section \<open>The membership read\<close>

text \<open>
  Claim C8. A membership check whose body succeeds obtained the signer, asked it for the
  user's address, asked the contract about exactly that address, and stored the answer
  in \<open>joinedWhitelist\<close>, changing no other cell; these calls happen in that order.
\<close>

theorem checkIfAddressInWhitelist_success:
  assumes "fst (checkIfAddressInWhitelist_try env w) = Inr ()"
  shows "\<exists>addr b.
     fst (getProviderOrSigner (member_accessor env) True w) = Inr Signer \<and>
     getAddress_result env = Inr addr \<and>
     whitelistedAddress_result env addr = Inr b \<and>
     ui (snd (checkIfAddressInWhitelist env w)) = (ui w)\<lparr>joinedWhitelist := b\<rparr> \<and>
     new_events w (snd (checkIfAddressInWhitelist env w)) =
       connect_events w @ [GetNetwork, GetSigner, NewContract Signer, GetAddress,
                           CallWhitelistedAddress addr, SetJoinedWhitelist b]"
proof -
  from assms obtain addr b where ok:
    "web3ModalRef w \<noteq> None" "connect_result (member_accessor env) = Inr ()"
    "network_result (member_accessor env) = Inr 4"
    and addr: "getAddress_result env = Inr addr"
    and b: "whitelistedAddress_result env addr = Inr b"
    by (rule checkIfAddressInWhitelist_try_Inr)
  have acc: "getProviderOrSigner (member_accessor env) True w =
      (Inr Signer, w\<lparr>connectionHandle := True,
              trace := trace w @ connect_events w @ [GetNetwork, GetSigner]\<rparr>)"
    using getProviderOrSigner_success [OF ok, of True] by simp
  have run: "snd (checkIfAddressInWhitelist env w) =
      setJoinedWhitelist b (emit (CallWhitelistedAddress addr) (emit GetAddress
        (emit (NewContract Signer)
          (w\<lparr>connectionHandle := True,
              trace := trace w @ connect_events w @ [GetNetwork, GetSigner]\<rparr>))))"
    by (simp add: checkIfAddressInWhitelist_def checkIfAddressInWhitelist_try_def acc addr b
        catch_log_def)
  have "ui (snd (checkIfAddressInWhitelist env w)) = (ui w)\<lparr>joinedWhitelist := b\<rparr>"
    by (simp add: run setJoinedWhitelist_def emit_def)
  moreover have "new_events w (snd (checkIfAddressInWhitelist env w)) =
       connect_events w @ [GetNetwork, GetSigner, NewContract Signer, GetAddress,
                           CallWhitelistedAddress addr, SetJoinedWhitelist b]"
    by (rule new_events_append) (simp add: run setJoinedWhitelist_def emit_def)
  ultimately show ?thesis
    using acc addr b by simp
qed

theorem checkIfAddressInWhitelist_success_witness:
  "fst (checkIfAddressInWhitelist_try (member_answers True) connected_world) = Inr () \<and>
   joinedWhitelist (ui (snd (checkIfAddressInWhitelist (member_answers True) connected_world))) \<and>
   new_events connected_world
       (snd (checkIfAddressInWhitelist (member_answers True) connected_world)) =
     [ModalConnect, GetNetwork, GetSigner, NewContract Signer, GetAddress,
      CallWhitelistedAddress ''0xA11CE'', SetJoinedWhitelist True]"
proof -
  have ok: "fst (checkIfAddressInWhitelist_try (member_answers True) connected_world) = Inr ()"
    by (simp add: checkIfAddressInWhitelist_try_def op_defs scenario_defs)
  show ?thesis
    using ok checkIfAddressInWhitelist_success [OF ok]
    by (auto simp: scenario_defs connect_events_def)
qed

section \<open>Joining the whitelist\<close>

text \<open>
  Claim C6. A join whose body succeeds has done, in this order and with nothing in
  between: obtain the signer, bind the contract to it, submit \<open>addAddressToWhitelist\<close>,
  set \<open>loading\<close> to true, wait for the transaction, set \<open>loading\<close> to false; what
  remains of it is exactly one run of \<open>getNumberOfWhitelisted\<close> from the state reached
  there.
\<close>

theorem addAddressToWhitelist_success_order:
  assumes "fst (addAddressToWhitelist_try env w) = Inr ()"
  shows "addAddressToWhitelist env w =
     getNumberOfWhitelisted (join_count env)
       \<lparr>ui = (ui w)\<lparr>loading := False\<rparr>,
        web3ModalRef = web3ModalRef w,
        connectionHandle = True,
        trace = trace w @ connect_events w @
          [GetNetwork, GetSigner, NewContract Signer, SendAddAddressToWhitelist,
           SetLoading True, TxWait, SetLoading False]\<rparr>"
proof -
  from assms have ok: "web3ModalRef w \<noteq> None" "connect_result (join_accessor env) = Inr ()"
    "network_result (join_accessor env) = Inr 4"
    and tx: "addAddressToWhitelist_result env = Inr ()" "wait_result env = Inr ()"
    by (simp_all add: addAddressToWhitelist_try_Inr)
  have acc: "getProviderOrSigner (join_accessor env) True w =
      (Inr Signer, w\<lparr>connectionHandle := True,
              trace := trace w @ connect_events w @ [GetNetwork, GetSigner]\<rparr>)"
    using getProviderOrSigner_success [OF ok, of True] by simp
  have world: "setLoading False (emit TxWait (setLoading True
        (emit SendAddAddressToWhitelist (emit (NewContract Signer)
          (w\<lparr>connectionHandle := True,
             trace := trace w @ connect_events w @ [GetNetwork, GetSigner]\<rparr>))))) =
       \<lparr>ui = (ui w)\<lparr>loading := False\<rparr>,
        web3ModalRef = web3ModalRef w,
        connectionHandle = True,
        trace = trace w @ connect_events w @
          [GetNetwork, GetSigner, NewContract Signer, SendAddAddressToWhitelist,
           SetLoading True, TxWait, SetLoading False]\<rparr>"
    by (cases w) (simp add: emit_def setLoading_def)
  have "addAddressToWhitelist_try env w =
     getNumberOfWhitelisted (join_count env)
       (setLoading False (emit TxWait (setLoading True
        (emit SendAddAddressToWhitelist (emit (NewContract Signer)
          (w\<lparr>connectionHandle := True,
             trace := trace w @ connect_events w @ [GetNetwork, GetSigner]\<rparr>))))))"
    using join_try_confirmed [of env w Signer] acc tx by simp
  then show ?thesis
    by (simp add: addAddressToWhitelist_def catch_log_Inr [OF getNumberOfWhitelisted_returns]
        world)
qed

theorem addAddressToWhitelist_success_order_witness:
  "fst (addAddressToWhitelist_try join_confirmed connected_world) = Inr () \<and>
   new_events connected_world (snd (addAddressToWhitelist join_confirmed connected_world)) =
     [ModalConnect, GetNetwork, GetSigner, NewContract Signer, SendAddAddressToWhitelist,
      SetLoading True, TxWait, SetLoading False,
      ModalConnect, GetNetwork, NewContract Provider, CallNumAddressesWhitelisted,
      SetNumberOfWhitelisted 4] \<and>
   ui (snd (addAddressToWhitelist join_confirmed connected_world)) =
     \<lparr>walletConnected = True, joinedWhitelist = False, loading = False,
      numberOfWhitelisted = 4\<rparr>"
proof -
  have ok: "fst (addAddressToWhitelist_try join_confirmed connected_world) = Inr ()"
    by (simp add: addAddressToWhitelist_try_Inr scenario_defs)
  show ?thesis
    using ok addAddressToWhitelist_success_order [OF ok]
    by (simp add: getNumberOfWhitelisted_def getNumberOfWhitelisted_try_def op_defs
        scenario_defs connect_events_def new_events_def)
qed

text \<open>
  Claim C5. When the join cannot obtain its signer (which includes a rejected wallet
  connection), or obtains it and the submission itself is rejected or fails, the error is
  caught and written to the console last, the operation returns normally, the UI state
  is the one before the call, and \<open>loading\<close> was never set to true on the way.
\<close>

theorem addAddressToWhitelist_submission_failure:
  "(fst (getProviderOrSigner (join_accessor env) True w) = Inl e \<longrightarrow>
      fst (addAddressToWhitelist_try env w) = Inl e \<and>
      fst (addAddressToWhitelist env w) = Inr () \<and>
      ui (snd (addAddressToWhitelist env w)) = ui w \<and>
      last (new_events w (snd (addAddressToWhitelist env w))) = ConsoleError e \<and>
      SetLoading True \<notin> set (new_events w (snd (addAddressToWhitelist env w)))) \<and>
   (fst (getProviderOrSigner (join_accessor env) True w) = Inr a \<and>
    addAddressToWhitelist_result env = Inl x \<longrightarrow>
      fst (addAddressToWhitelist_try env w) = Inl (External x) \<and>
      fst (addAddressToWhitelist env w) = Inr () \<and>
      ui (snd (addAddressToWhitelist env w)) = ui w \<and>
      last (new_events w (snd (addAddressToWhitelist env w))) = ConsoleError (External x) \<and>
      SetLoading True \<notin> set (new_events w (snd (addAddressToWhitelist env w))))"
proof -
  let ?w1 = "snd (getProviderOrSigner (join_accessor env) True w)"
  obtain xs where xs: "trace ?w1 = trace w @ xs" "SetLoading True \<notin> set xs"
    using getProviderOrSigner_events [of "join_accessor env" True w] by blast
  have ui1: "ui ?w1 = ui w"
    by (rule getProviderOrSigner_ui)
  have first: "fst (addAddressToWhitelist_try env w) = Inl e \<and>
      fst (addAddressToWhitelist env w) = Inr () \<and>
      ui (snd (addAddressToWhitelist env w)) = ui w \<and>
      last (new_events w (snd (addAddressToWhitelist env w))) = ConsoleError e \<and>
      SetLoading True \<notin> set (new_events w (snd (addAddressToWhitelist env w)))"
    if "fst (getProviderOrSigner (join_accessor env) True w) = Inl e"
  proof -
    have run: "addAddressToWhitelist env w = (Inr (), emit (ConsoleError e) ?w1)"
      using that by (simp add: addAddressToWhitelist_def join_try_accessor_fails catch_log_def)
    have "new_events w (snd (addAddressToWhitelist env w)) = xs @ [ConsoleError e]"
      by (rule new_events_append) (simp add: run emit_def xs(1))
    then show ?thesis
      using that xs(2) ui1 by (simp add: run join_try_accessor_fails emit_def)
  qed
  have second: "fst (addAddressToWhitelist_try env w) = Inl (External x) \<and>
      fst (addAddressToWhitelist env w) = Inr () \<and>
      ui (snd (addAddressToWhitelist env w)) = ui w \<and>
      last (new_events w (snd (addAddressToWhitelist env w))) = ConsoleError (External x) \<and>
      SetLoading True \<notin> set (new_events w (snd (addAddressToWhitelist env w)))"
    if "fst (getProviderOrSigner (join_accessor env) True w) = Inr a"
      and "addAddressToWhitelist_result env = Inl x"
  proof -
    have run: "addAddressToWhitelist env w =
        (Inr (), emit (ConsoleError (External x)) (emit SendAddAddressToWhitelist
                   (emit (NewContract a) ?w1)))"
      using that by (simp add: addAddressToWhitelist_def join_try_submit_fails catch_log_def)
    have "new_events w (snd (addAddressToWhitelist env w)) =
        xs @ [NewContract a, SendAddAddressToWhitelist, ConsoleError (External x)]"
      by (rule new_events_append) (simp add: run emit_def xs(1))
    then show ?thesis
      using that xs(2) ui1 by (simp add: run join_try_submit_fails emit_def)
  qed
  from first second show ?thesis by blast
qed

theorem addAddressToWhitelist_submission_failure_witness:
  "fst (getProviderOrSigner (join_accessor join_rejected) True connected_world) = Inr Signer \<and>
   addAddressToWhitelist_result join_rejected = Inl WalletRejection \<and>
   fst (getProviderOrSigner (join_accessor join_connect_rejected) True connected_world) =
     Inl (External WalletRejection) \<and>
   \<not> loading (ui connected_world) \<and>
   \<not> loading (ui (snd (addAddressToWhitelist join_rejected connected_world))) \<and>
   \<not> loading (ui (snd (addAddressToWhitelist join_connect_rejected connected_world))) \<and>
   last (new_events connected_world (snd (addAddressToWhitelist join_rejected connected_world)))
     = ConsoleError (External WalletRejection) \<and>
   last (new_events connected_world
           (snd (addAddressToWhitelist join_connect_rejected connected_world)))
     = ConsoleError (External WalletRejection)"
proof -
  have acc: "fst (getProviderOrSigner (join_accessor join_rejected) True connected_world) =
      Inr Signer"
    by (simp add: getProviderOrSigner_Inr scenario_defs)
  have sub: "addAddressToWhitelist_result join_rejected = Inl WalletRejection"
    by (simp add: join_rejected_def)
  have rej: "fst (getProviderOrSigner (join_accessor join_connect_rejected) True
                    connected_world) = Inl (External WalletRejection)"
    by (simp add: op_defs scenario_defs)
  show ?thesis
    using acc sub rej
      addAddressToWhitelist_submission_failure [of join_rejected connected_world _ Signer
        WalletRejection]
      addAddressToWhitelist_submission_failure [of join_connect_rejected connected_world
        "External WalletRejection"]
    by (simp add: connected_world_def)
qed

text \<open>
  Claim C10. No run of the join, successful or not, changes \<open>joinedWhitelist\<close> or makes
  any call of the membership check (reading the address, asking the contract, setting
  the cell). So a connected user who was not shown as a member is not shown the
  membership message after joining either.
\<close>

theorem addAddressToWhitelist_keeps_membership:
  "joinedWhitelist (ui (snd (addAddressToWhitelist env w))) = joinedWhitelist (ui w) \<and>
   filter membership_event (new_events w (snd (addAddressToWhitelist env w))) = [] \<and>
   (walletConnected (ui w) \<and> \<not> joinedWhitelist (ui w) \<longrightarrow>
      renderButton (ui (snd (addAddressToWhitelist env w))) \<noteq> memberVariant)"
proof -
  obtain xs where xs: "trace (snd (addAddressToWhitelist env w)) = trace w @ xs"
    "filter membership_event xs = []"
    using addAddressToWhitelist_trace [of env w] by blast
  have "new_events w (snd (addAddressToWhitelist env w)) = xs"
    using xs(1) by (rule new_events_append)
  with xs(2) show ?thesis
    by (simp add: addAddressToWhitelist_frame renderButton_def memberVariant_def)
qed

theorem addAddressToWhitelist_keeps_membership_witness:
  "fst (addAddressToWhitelist_try join_confirmed connected_world) = Inr () \<and>
   walletConnected (ui connected_world) \<and> \<not> joinedWhitelist (ui connected_world) \<and>
   \<not> joinedWhitelist (ui (snd (addAddressToWhitelist join_confirmed connected_world))) \<and>
   renderButton (ui (snd (addAddressToWhitelist join_confirmed connected_world))) \<noteq>
     memberVariant"
  using addAddressToWhitelist_keeps_membership [of join_confirmed connected_world]
  by (simp add: addAddressToWhitelist_try_Inr scenario_defs)

text \<open>
  Claim C1, at the input where it fails. The page is connected, idle, and the user clicks
  join; the wallet submits the transaction and \<^verbatim>\<open>tx.wait()\<close> rejects. The handler logs
  the error and returns with \<open>loading\<close> still true, and the page now renders the
  loading button, which has no click handler. The comment on the state cell says that
  \<open>loading\<close> is true while the page waits for a transaction to be mined; here nothing
  is waited for any more. The same happens from the initial page: a load that connects
  on Rinkeby, then that click.
\<close>

theorem wait_failure_stuck_loading:
  "\<not> loading (ui connected_world) \<and>
   addAddressToWhitelist_result join_wait_fails = Inr () \<and>
   wait_result join_wait_fails = Inl RpcOrContract \<and>
   fst (addAddressToWhitelist join_wait_fails connected_world) = Inr () \<and>
   loading (ui (snd (addAddressToWhitelist join_wait_fails connected_world))) \<and>
   new_events connected_world (snd (addAddressToWhitelist join_wait_fails connected_world)) =
     [ModalConnect, GetNetwork, GetSigner, NewContract Signer, SendAddAddressToWhitelist,
      SetLoading True, TxWait, ConsoleError (External RpcOrContract)] \<and>
   renderButton (ui (snd (addAddressToWhitelist join_wait_fails connected_world))) =
     loadingVariant \<and>
   ui (run [RunEffect connect_rinkeby] initial_world) = ui connected_world \<and>
   ui (run [RunEffect connect_rinkeby,
            Click \<lparr>click_connect = connect_rinkeby, click_join = join_wait_fails\<rparr>]
         initial_world) =
     \<lparr>walletConnected = True, joinedWhitelist = False, loading = True,
      numberOfWhitelisted = 3\<rparr>"
  by (simp add: useEffect_def click_def connectWallet_def connectWallet_try_def
      checkIfAddressInWhitelist_def checkIfAddressInWhitelist_try_def
      getNumberOfWhitelisted_def getNumberOfWhitelisted_try_def
      addAddressToWhitelist_def addAddressToWhitelist_try_def op_defs scenario_defs
      new_events_def renderButton_def loadingVariant_def)

section \<open>Connecting on the wrong network\<close>

text \<open>
  Claim C4. When the connector is in place, the connection succeeds and the chain id it
  reports is not 4, \<open>getProviderOrSigner\<close> fails with the wrong-network error and so does
  the body of \<open>connectWallet\<close>; the alert is shown, the handler logs the error and
  returns, and no state setter runs: the UI state, \<open>walletConnected\<close> included, is the
  one before the attempt, and neither refresh is started.
\<close>

theorem connectWallet_wrong_network:
  assumes "web3ModalRef w \<noteq> None"
    and "connect_result (connect_accessor env) = Inr ()"
    and "network_result (connect_accessor env) = Inr chainId"
    and "chainId \<noteq> 4"
  shows "fst (getProviderOrSigner (connect_accessor env) False w) =
           Inl (Error ''Change network to Rinkeby'') \<and>
         fst (connectWallet_try env w) = Inl (Error ''Change network to Rinkeby'') \<and>
         fst (connectWallet env w) = Inr () \<and>
         ui (snd (connectWallet env w)) = ui w \<and>
         new_events w (snd (connectWallet env w)) =
           connect_events w @ [GetNetwork, Alert ''Change the network to Rinkeby'',
                               ConsoleError (Error ''Change network to Rinkeby'')]"
proof -
  note acc = getProviderOrSigner_wrong_network [OF assms, of False]
  have body: "connectWallet_try env w =
      (Inl (Error ''Change network to Rinkeby''),
       w\<lparr>connectionHandle := True,
         trace := trace w @ connect_events w @
                  [GetNetwork, Alert ''Change the network to Rinkeby'']\<rparr>)"
    using connect_try_accessor_fails [of env w "Error ''Change network to Rinkeby''"]
    by (simp add: acc)
  have "new_events w (snd (connectWallet env w)) =
           connect_events w @ [GetNetwork, Alert ''Change the network to Rinkeby'',
                               ConsoleError (Error ''Change network to Rinkeby'')]"
    by (rule new_events_append) (simp add: connectWallet_def body catch_log_def emit_def)
  then show ?thesis
    by (simp add: acc body connectWallet_def catch_log_def emit_def)
qed

theorem connectWallet_wrong_network_witness:
  "web3ModalRef mounted_world \<noteq> None \<and>
   network_result (connect_accessor connect_mainnet) = Inr 1 \<and>
   \<not> walletConnected (ui (snd (connectWallet connect_mainnet mounted_world))) \<and>
   new_events mounted_world (snd (connectWallet connect_mainnet mounted_world)) =
     [ModalConnect, WalletPrompt, GetNetwork, Alert ''Change the network to Rinkeby'',
      ConsoleError (Error ''Change network to Rinkeby'')] \<and>
   useEffect connect_mainnet initial_world =
     snd (connectWallet connect_mainnet (emit NewWeb3Modal mounted_world)) \<and>
   ui (useEffect connect_mainnet initial_world) = ui initial_world"
  using connectWallet_wrong_network [of mounted_world connect_mainnet 1]
    connectWallet_wrong_network [of "emit NewWeb3Modal mounted_world" connect_mainnet 1]
  by (simp add: scenario_defs connect_events_def useEffect_def emit_def)

section \<open>What being connected rules out\<close>




end
